theory Spec2Isabelle
  imports Main
begin

section \<open>Strings of the host language\<close>

text \<open>
  The server is a Node.js program (\<^verbatim>\<open>server/index.js\<close>). Its strings are modelled as
  \<^typ>\<open>string\<close>, read as ASCII text: one \<^typ>\<open>char\<close> per code unit. The functions
  below are the methods of \<^verbatim>\<open>String\<close> and \<^verbatim>\<open>Array\<close> that the source calls, with the
  behaviour they have on ASCII text.
\<close>

definition startsWith :: "string \<Rightarrow> string \<Rightarrow> bool" where
  "startsWith s p = (take (length p) s = p)"

definition charAt :: "string \<Rightarrow> nat \<Rightarrow> string" where
  \<comment> \<open>\<^verbatim>\<open>s.charAt(i)\<close>: the one-character string at index \<open>i\<close>, the empty string out of range.\<close>
  "charAt s i = (if i < length s then [s ! i] else [])"

definition upper_char :: "char \<Rightarrow> char" where
  "upper_char c =
     (case map_of (zip ''abcdefghijklmnopqrstuvwxyz'' ''ABCDEFGHIJKLMNOPQRSTUVWXYZ'') c of
        Some u \<Rightarrow> u
      | None \<Rightarrow> c)"

definition toUpperCase :: "string \<Rightarrow> string" where
  \<comment> \<open>On ASCII text: the letters \<^verbatim>\<open>a\<close> to \<^verbatim>\<open>z\<close> become \<^verbatim>\<open>A\<close> to \<^verbatim>\<open>Z\<close>, the rest is kept.\<close>
  "toUpperCase s = map upper_char s"

fun join :: "string \<Rightarrow> string list \<Rightarrow> string" where
  "join sep [] = []"
| "join sep [x] = x"
| "join sep (x # y # ys) = x @ sep @ join sep (y # ys)"

fun split_on :: "char \<Rightarrow> string \<Rightarrow> string list" where
  "split_on c [] = [[]]"
| "split_on c (x # xs) =
     (if x = c then [] # split_on c xs
      else (case split_on c xs of
              [] \<Rightarrow> [[x]]
            | y # ys \<Rightarrow> (x # y) # ys))"

definition is_space :: "char \<Rightarrow> bool" where
  \<comment> \<open>The ASCII members of the class \<^verbatim>\<open>\s\<close>, which are also what \<^verbatim>\<open>trim()\<close> strips:
      tab, line feed, vertical tab, form feed, carriage return, space.\<close>
  "is_space c = (c \<in> set [CHR 0x09, CHR 0x0A, CHR 0x0B, CHR 0x0C, CHR 0x0D, CHR 0x20])"

definition trim :: "string \<Rightarrow> string" where
  "trim s = rev (dropWhile is_space (rev (dropWhile is_space s)))"

fun show_nat :: "nat \<Rightarrow> string" where
  "show_nat n =
     (if n < 10 then [''0123456789'' ! n]
      else show_nat (n div 10) @ [''0123456789'' ! (n mod 10)])"

definition show_int :: "int \<Rightarrow> string" where
  \<comment> \<open>An integral number inside a template literal: its decimal digits.\<close>
  "show_int i = (if i < 0 then ''-'' @ show_nat (nat (- i)) else show_nat (nat i))"

section \<open>Configuration and the platform library\<close>

text \<open>
  The constants read once from the process environment at start-up
  (\<^verbatim>\<open>index.js\<close>, lines 24 to 32).
\<close>

record config =
  ALLOWED_DRIVES :: "string list"
  ALLOWED_PATHS :: "string list"
  PYTHON_PATH :: string
  PYTHON_TIMEOUT :: int
  PYTHON_MAX_TIMEOUT :: int
  POWERSHELL_PATH :: string
  POWERSHELL_TIMEOUT :: int
  POWERSHELL_MAX_TIMEOUT :: int

definition ALLOWED_DRIVES_init :: "string option \<Rightarrow> string list" where
  \<comment> \<open>\<^verbatim>\<open>(process.env.ALLOWED_DRIVES || 'C,F').split(',')\<close>: an unset or empty variable
      gives the default.\<close>
  "ALLOWED_DRIVES_init v =
     split_on CHR '','' (case v of None \<Rightarrow> ''C,F'' | Some s \<Rightarrow> if s = [] then ''C,F'' else s)"

definition ALLOWED_PATHS_init :: "string option \<Rightarrow> string list" where
  \<comment> \<open>\<^verbatim>\<open>(process.env.ALLOWED_PATHS || '').split(',').filter(p => p)\<close>\<close>
  "ALLOWED_PATHS_init v =
     filter (\<lambda>p. p \<noteq> []) (split_on CHR '','' (case v of None \<Rightarrow> [] | Some s \<Rightarrow> s))"

text \<open>
  The functions of Node's \<^verbatim>\<open>path\<close> and \<^verbatim>\<open>os\<close> modules that the source calls, and the
  ambient environment \<^verbatim>\<open>process.env\<close>, are not part of the repository. They are taken as
  parameters: every theorem below holds for any choice of them.
\<close>

record node_lib =
  normalize :: "string \<Rightarrow> string"
  dirname :: "string \<Rightarrow> string"
  path_join :: "string \<Rightarrow> string \<Rightarrow> string"
  tmpdir :: string
  homedir :: string
  process_env :: "string \<rightharpoonup> string"

text \<open>
  For concrete runs, one instance: the POSIX flavour of the library, modelled from Node's
  documentation of \<^verbatim>\<open>path.normalize\<close>, \<^verbatim>\<open>path.dirname\<close> and \<^verbatim>\<open>path.join\<close>. A path is
  split at \<^verbatim>\<open>/\<close>; empty and \<^verbatim>\<open>.\<close> segments are dropped; \<^verbatim>\<open>..\<close> removes the segment
  before it, is dropped at the root and kept at the start of a relative path; a trailing
  separator is kept.
\<close>

fun norm_segments :: "bool \<Rightarrow> string list \<Rightarrow> string list \<Rightarrow> string list" where
  "norm_segments up acc [] = rev acc"
| "norm_segments up acc (s # ss) =
     (if s = [] \<or> s = ''.'' then norm_segments up acc ss
      else if s = ''..'' then
        (case acc of
           [] \<Rightarrow> if up then norm_segments up [s] ss else norm_segments up [] ss
         | t # ts \<Rightarrow>
             if t = ''..'' then norm_segments up (s # acc) ss
             else norm_segments up ts ss)
      else norm_segments up (s # acc) ss)"

definition posix_normalize :: "string \<Rightarrow> string" where
  "posix_normalize p =
     (if p = [] then ''.''
      else
        let isAbsolute = (hd p = CHR ''/'');
            trailingSeparator = (last p = CHR ''/'');
            body = join ''/'' (norm_segments (\<not> isAbsolute) [] (split_on CHR ''/'' p))
        in if body = [] then
             (if isAbsolute then ''/'' else if trailingSeparator then ''./'' else ''.'')
           else (if isAbsolute then ''/'' else []) @ body
                @ (if trailingSeparator then ''/'' else []))"

definition posix_dirname :: "string \<Rightarrow> string" where
  \<comment> \<open>The path up to its last separator, trailing separators apart; the separator at
      index 0 is the root and is not looked at.\<close>
  "posix_dirname p =
     (if p = [] then ''.''
      else
        let hasRoot = (hd p = CHR ''/'');
            stripped = rev (dropWhile (\<lambda>c. c = CHR ''/'') (rev (tl p)));
            after_last = length (takeWhile (\<lambda>c. c \<noteq> CHR ''/'') (rev stripped));
            end_index = length stripped - after_last
        in if CHR ''/'' \<notin> set stripped then (if hasRoot then ''/'' else ''.'')
           else if hasRoot \<and> end_index = 1 then ''//''
           else take end_index p)"

definition posix_join :: "string \<Rightarrow> string \<Rightarrow> string" where
  \<comment> \<open>\<^verbatim>\<open>path.join(a, b)\<close>: the segments that are not empty, joined by \<^verbatim>\<open>/\<close> and normalized.\<close>
  "posix_join a b = posix_normalize (join ''/'' (filter (\<lambda>seg. seg \<noteq> []) [a, b]))"

definition posix :: node_lib where
  "posix = \<lparr> normalize = posix_normalize,
             dirname = posix_dirname,
             path_join = posix_join,
             tmpdir = ''/tmp'',
             homedir = ''/home/user'',
             process_env = [''PATH'' \<mapsto> ''/usr/bin''] \<rparr>"

section \<open>Errors\<close>

text \<open>
  The source raises \<^verbatim>\<open>new Error(message)\<close>; the file-system calls of Node raise system
  errors that carry an error code, the name of the system call and the path.
\<close>

datatype error = Error string | SystemError string string string

section \<open>AccessGuard: validatePath\<close>

definition access_denied_message :: "config \<Rightarrow> string \<Rightarrow> string" where
  "access_denied_message cfg normalized =
     ''Access denied: Path '' @ normalized @ '' not in allowed list (drives: ''
     @ join '', '' (ALLOWED_DRIVES cfg) @ '', paths: ''
     @ (if join '', '' (ALLOWED_PATHS cfg) = [] then ''none''
        else join '', '' (ALLOWED_PATHS cfg)) @ '')''"

fun any_prefix :: "string \<Rightarrow> string list \<Rightarrow> bool" where
  \<comment> \<open>The loop over \<^verbatim>\<open>ALLOWED_PATHS\<close>: true as soon as one entry is a prefix.\<close>
  "any_prefix normalized [] = False"
| "any_prefix normalized (allowedPath # rest) =
     (if startsWith normalized allowedPath then True else any_prefix normalized rest)"

definition validatePath :: "node_lib \<Rightarrow> config \<Rightarrow> string \<Rightarrow> error + string" where
  "validatePath lib cfg filePath =
     (let normalized = normalize lib filePath in
      if startsWith normalized ''/mnt/''
         \<and> toUpperCase (charAt normalized 5) \<in> set (ALLOWED_DRIVES cfg)
      then Inr normalized
      else if startsWith normalized ''/home/'' \<or> startsWith normalized ''/tmp/''
      then Inr normalized
      else if any_prefix normalized (ALLOWED_PATHS cfg)
      then Inr normalized
      else if toUpperCase (charAt normalized 0) \<in> set (ALLOWED_DRIVES cfg)
      then Inr normalized
      else Inl (Error (access_denied_message cfg normalized)))"

section \<open>The world: files and effects\<close>

text \<open>
  Everything outside the program is explicit state. The file system maps a path to a
  regular file with its content or to a directory. The log records, in the order they
  complete, the mutating calls that succeeded and the processes that were spawned.
  Permissions, missing parent directories and full disks are not modelled: a call fails
  only through the kind of node it finds. The calls of \<^verbatim>\<open>log\<close> write to the error stream
  of the server and are left out.
\<close>

datatype node = File string | Dir

record spawn_call =
  command :: string
  args :: "string list"
  cwd :: string
  env :: "string \<rightharpoonup> string"
  spawn_timeout :: "int option"

datatype effect =
    CopyFile string string
  | WriteFile string string
  | Unlink string
  | Spawn spawn_call

record world =
  files :: "string \<rightharpoonup> node"
  effects :: "effect list"

text \<open>
  An asynchronous function returns, throws, or never settles (its promise stays pending).
\<close>

datatype 'a outcome = Returned 'a | Threw error | Pending

type_synonym 'a io = "world \<Rightarrow> 'a outcome \<times> world"

definition bind_io :: "'a io \<Rightarrow> ('a \<Rightarrow> 'b io) \<Rightarrow> 'b io" where
  \<comment> \<open>\<^verbatim>\<open>await\<close> of the first call, then the rest; a throw or a pending promise ends the function.\<close>
  "bind_io m f w =
     (case m w of
        (Returned x, w') \<Rightarrow> f x w'
      | (Threw e, w') \<Rightarrow> (Threw e, w')
      | (Pending, w') \<Rightarrow> (Pending, w'))"

definition return_io :: "'a \<Rightarrow> 'a io" where
  "return_io x w = (Returned x, w)"

definition throw_io :: "error \<Rightarrow> 'a io" where
  "throw_io e w = (Threw e, w)"

definition existsSync :: "world \<Rightarrow> string \<Rightarrow> bool" where
  "existsSync w p = (files w p \<noteq> None)"

definition fs_copyFile :: "string \<Rightarrow> string \<Rightarrow> unit io" where
  "fs_copyFile src dest w =
     (case files w src of
        None \<Rightarrow> (Threw (SystemError ''ENOENT'' ''copyfile'' src), w)
      | Some Dir \<Rightarrow> (Threw (SystemError ''EISDIR'' ''copyfile'' src), w)
      | Some (File c) \<Rightarrow>
          if files w dest = Some Dir then (Threw (SystemError ''EISDIR'' ''copyfile'' dest), w)
          else (Returned (),
                w\<lparr>files := (files w)(dest \<mapsto> File c),
                  effects := effects w @ [CopyFile src dest]\<rparr>))"

definition fs_writeFile :: "string \<Rightarrow> string \<Rightarrow> unit io" where
  "fs_writeFile p content w =
     (if files w p = Some Dir then (Threw (SystemError ''EISDIR'' ''open'' p), w)
      else (Returned (),
            w\<lparr>files := (files w)(p \<mapsto> File content),
              effects := effects w @ [WriteFile p content]\<rparr>))"

definition fs_readFile :: "string \<Rightarrow> string io" where
  "fs_readFile p w =
     (case files w p of
        None \<Rightarrow> (Threw (SystemError ''ENOENT'' ''open'' p), w)
      | Some Dir \<Rightarrow> (Threw (SystemError ''EISDIR'' ''open'' p), w)
      | Some (File c) \<Rightarrow> (Returned c, w))"

definition fs_stat_size :: "string \<Rightarrow> nat io" where
  \<comment> \<open>\<^verbatim>\<open>(await fs.stat(p)).size\<close>: the number of bytes of a regular file. The size reported
      for a directory depends on the platform and is not used below; it is 0 here.\<close>
  "fs_stat_size p w =
     (case files w p of
        None \<Rightarrow> (Threw (SystemError ''ENOENT'' ''stat'' p), w)
      | Some Dir \<Rightarrow> (Returned 0, w)
      | Some (File c) \<Rightarrow> (Returned (length c), w))"

definition fs_unlink :: "string \<Rightarrow> unit io" where
  "fs_unlink p w =
     (case files w p of
        None \<Rightarrow> (Threw (SystemError ''ENOENT'' ''unlink'' p), w)
      | Some Dir \<Rightarrow> (Threw (SystemError ''EISDIR'' ''unlink'' p), w)
      | Some (File c) \<Rightarrow>
          (Returned (),
           w\<lparr>files := (files w)(p := None), effects := effects w @ [Unlink p]\<rparr>))"

definition validated_io :: "node_lib \<Rightarrow> config \<Rightarrow> string \<Rightarrow> string io" where
  \<comment> \<open>\<^verbatim>\<open>validatePath\<close> called inside an asynchronous function: its exception rejects the call.\<close>
  "validated_io lib cfg p w =
     (case validatePath lib cfg p of Inl e \<Rightarrow> (Threw e, w) | Inr v \<Rightarrow> (Returned v, w))"

section \<open>FileOperations: writeFile and deleteFile\<close>

text \<open>
  The objects the two functions return. Their fields are prefixed because a record field
  is a constant of the theory: \<open>w_size\<close> is the field \<^verbatim>\<open>size\<close> of the result of
  \<^verbatim>\<open>writeFile\<close>. The parameter \<open>now\<close> is what \<^verbatim>\<open>Date.now()\<close> returns in the call. The
  \<^verbatim>\<open>try\<close>/\<^verbatim>\<open>catch\<close> around each body logs the error and throws it again, so it does
  not appear.
\<close>

record write_result =
  w_success :: bool
  w_path :: string
  w_size :: nat
  backup_created :: bool

record delete_result =
  d_success :: bool
  d_path :: string
  backup_path :: "string option"

definition writeFile ::
  "node_lib \<Rightarrow> config \<Rightarrow> int \<Rightarrow> string \<Rightarrow> string \<Rightarrow> bool \<Rightarrow> write_result io" where
  "writeFile lib cfg now filePath content createBackup =
     bind_io (validated_io lib cfg filePath) (\<lambda>validated.
     bind_io (\<lambda>w. if createBackup \<and> existsSync w validated
                  then fs_copyFile validated (validated @ ''.backup_'' @ show_int now) w
                  else (Returned (), w)) (\<lambda>_.
     bind_io (fs_writeFile validated content) (\<lambda>_.
     bind_io (fs_stat_size validated) (\<lambda>size_bytes w.
       (Returned \<lparr> w_success = True,
                   w_path = validated,
                   w_size = size_bytes,
                   backup_created = (createBackup \<and> existsSync w validated) \<rparr>, w)))))"

definition deleteFile ::
  "node_lib \<Rightarrow> config \<Rightarrow> int \<Rightarrow> string \<Rightarrow> bool \<Rightarrow> delete_result io" where
  "deleteFile lib cfg now filePath createBackup =
     bind_io (validated_io lib cfg filePath) (\<lambda>validated.
     bind_io (\<lambda>w. if createBackup
                  then (case fs_copyFile validated (validated @ ''.deleted_'' @ show_int now) w of
                          (Returned _, w') \<Rightarrow>
                            (Returned (Some (validated @ ''.deleted_'' @ show_int now)), w')
                        | (Threw e, w') \<Rightarrow> (Threw e, w')
                        | (Pending, w') \<Rightarrow> (Pending, w'))
                  else (Returned None, w)) (\<lambda>backupPath.
     bind_io (fs_unlink validated) (\<lambda>_.
       return_io \<lparr> d_success = True, d_path = validated, backup_path = backupPath \<rparr>)))"

text \<open>
  The tool handlers \<^verbatim>\<open>write_file\<close> and \<^verbatim>\<open>delete_file\<close> pass
  \<^verbatim>\<open>args.create_backup !== false\<close>: backup is on unless the caller sends \<^verbatim>\<open>false\<close>.
\<close>

definition write_file ::
  "node_lib \<Rightarrow> config \<Rightarrow> int \<Rightarrow> string \<Rightarrow> string \<Rightarrow> bool option \<Rightarrow> write_result io" where
  "write_file lib cfg now path content create_backup =
     writeFile lib cfg now path content (create_backup \<noteq> Some False)"

definition delete_file ::
  "node_lib \<Rightarrow> config \<Rightarrow> int \<Rightarrow> string \<Rightarrow> bool option \<Rightarrow> delete_result io" where
  "delete_file lib cfg now path create_backup =
     deleteFile lib cfg now path (create_backup \<noteq> Some False)"

section \<open>CodeSafetyFilter: the dangerous patterns\<close>

text \<open>
  The ten regular expressions of \<^verbatim>\<open>DANGEROUS_PATTERNS\<close> use only a word boundary, literal
  text, one alternation of literals, single characters of a class and starred classes.
  A pattern is the list of these items. \<^verbatim>\<open>pattern.test(code)\<close> on a regular expression
  without flags asks whether the pattern matches at some position of the text; the
  engine backtracks over every choice, so the answer is whether some choice matches.
\<close>

datatype char_class = Whitespace | AnyOf string | NoneOf string

datatype rx_item =
    WordBoundary
  | Lit string
  | Alt "string list"
  | One char_class
  | Star char_class

type_synonym regex = "rx_item list"

definition is_word_char :: "char \<Rightarrow> bool" where
  \<comment> \<open>The class \<^verbatim>\<open>\w\<close>.\<close>
  "is_word_char c =
     (c \<in> set ''abcdefghijklmnopqrstuvwxyzABCDEFGHIJKLMNOPQRSTUVWXYZ0123456789_'')"

fun in_class :: "char_class \<Rightarrow> char \<Rightarrow> bool" where
  "in_class Whitespace c = is_space c"
| "in_class (AnyOf cs) c = (c \<in> set cs)"
| "in_class (NoneOf cs) c = (c \<notin> set cs)"

definition word_before :: "char option \<Rightarrow> bool" where
  "word_before prev = (case prev of None \<Rightarrow> False | Some c \<Rightarrow> is_word_char c)"

definition word_after :: "string \<Rightarrow> bool" where
  "word_after s = (case s of [] \<Rightarrow> False | c # _ \<Rightarrow> is_word_char c)"

definition last_of :: "char option \<Rightarrow> string \<Rightarrow> char option" where
  \<comment> \<open>The character before the current position after consuming \<open>l\<close>.\<close>
  "last_of prev l = (if l = [] then prev else Some (last l))"

function matches_here :: "regex \<Rightarrow> char option \<Rightarrow> string \<Rightarrow> bool" where
  "matches_here [] prev s = True"
| "matches_here (WordBoundary # r) prev s =
     (word_before prev \<noteq> word_after s \<and> matches_here r prev s)"
| "matches_here (Lit l # r) prev s =
     (startsWith s l \<and> matches_here r (last_of prev l) (drop (length l) s))"
| "matches_here (Alt ls # r) prev s =
     list_ex (\<lambda>l. startsWith s l \<and> matches_here r (last_of prev l) (drop (length l) s)) ls"
| "matches_here (One cl # r) prev s =
     (case s of [] \<Rightarrow> False | c # cs \<Rightarrow> in_class cl c \<and> matches_here r (Some c) cs)"
| "matches_here (Star cl # r) prev s =
     (matches_here r prev s
      \<or> (case s of [] \<Rightarrow> False
          | c # cs \<Rightarrow> in_class cl c \<and> matches_here (Star cl # r) (Some c) cs))"
  by pat_completeness auto
termination
  by (relation "measures [\<lambda>(r, prev, s). length r, \<lambda>(r, prev, s). length s]") auto

fun search_from :: "regex \<Rightarrow> char option \<Rightarrow> string \<Rightarrow> bool" where
  "search_from r prev [] = matches_here r prev []"
| "search_from r prev (c # cs) = (matches_here r prev (c # cs) \<or> search_from r (Some c) cs)"

definition test :: "regex \<Rightarrow> string \<Rightarrow> bool" where
  "test pattern code = search_from pattern None code"

text \<open>\<^verbatim>\<open>pattern.toString()\<close>: the source text of the expression between slashes.\<close>

definition backslash :: char where
  "backslash = CHR 0x5C"

definition escape_lit :: "string \<Rightarrow> string" where
  "escape_lit l = concat (map (\<lambda>c. if c \<in> set ''.()'' then [backslash, c] else [c]) l)"

fun class_source :: "char_class \<Rightarrow> string" where
  "class_source Whitespace = [backslash, CHR ''s'']"
| "class_source (AnyOf cs) = ''['' @ cs @ '']''"
| "class_source (NoneOf cs) = ''[^'' @ cs @ '']''"

fun item_source :: "rx_item \<Rightarrow> string" where
  "item_source WordBoundary = [backslash, CHR ''b'']"
| "item_source (Lit l) = escape_lit l"
| "item_source (Alt ls) = ''('' @ join ''|'' (map escape_lit ls) @ '')''"
| "item_source (One cl) = class_source cl"
| "item_source (Star cl) = class_source cl @ ''*''"

definition toString :: "regex \<Rightarrow> string" where
  "toString pattern = ''/'' @ concat (map item_source pattern) @ ''/''"

definition DANGEROUS_PATTERNS :: "regex list" where
  "DANGEROUS_PATTERNS =
     [ [WordBoundary, Lit ''os.system'', Star Whitespace, Lit ''(''],
       [WordBoundary, Lit ''subprocess.'', Alt [''call'', ''run'', ''Popen''],
        Star Whitespace, Lit ''(''],
       [WordBoundary, Lit ''eval'', Star Whitespace, Lit ''(''],
       [WordBoundary, Lit ''exec'', Star Whitespace, Lit ''(''],
       [WordBoundary, Lit ''__import__'', Star Whitespace, Lit ''(''],
       [WordBoundary, Lit ''open'', Star Whitespace, Lit ''('', Star (NoneOf '')''),
        One (AnyOf [CHR 0x27, CHR 0x22]), One (AnyOf ''wa'')],
       [WordBoundary, Lit ''shutil.rmtree'', Star Whitespace, Lit ''(''],
       [WordBoundary, Lit ''os.remove'', Star Whitespace, Lit ''(''],
       [WordBoundary, Lit ''os.unlink'', Star Whitespace, Lit ''(''],
       [WordBoundary, Lit ''os.rmdir'', Star Whitespace, Lit ''(''] ]"

datatype safety = Safe | Unsafe string

fun first_dangerous :: "regex list \<Rightarrow> string \<Rightarrow> safety" where
  \<comment> \<open>The loop of \<^verbatim>\<open>checkPythonCodeSafety\<close>: the first pattern that matches is the reason.\<close>
  "first_dangerous [] code = Safe"
| "first_dangerous (pattern # rest) code =
     (if test pattern code
      then Unsafe (''Dangerous pattern detected: '' @ toString pattern)
      else first_dangerous rest code)"

definition checkPythonCodeSafety :: "string \<Rightarrow> safety" where
  "checkPythonCodeSafety code = first_dangerous DANGEROUS_PATTERNS code"

section \<open>ProcessRunner: the handlers of a spawned process\<close>

text \<open>
  \<^verbatim>\<open>runPythonScript\<close>, \<^verbatim>\<open>runPowerShell\<close> and \<^verbatim>\<open>runPowerShellScript\<close> each build a promise
  around \<^verbatim>\<open>spawn\<close> and register the same five callbacks; the three copies differ in the
  word that starts the timeout message, in whether the result has a \<^verbatim>\<open>script_path\<close>, and in
  the arguments of \<^verbatim>\<open>spawn\<close>. The child process is outside the program: what it does is
  the list of events that Node delivers to the callbacks, in order, together with
  what the child does to the files. \<^verbatim>\<open>Close\<close> and \<^verbatim>\<open>ProcError\<close> carry the value of
  \<^verbatim>\<open>Date.now()\<close> read by their callback; an exit code of \<^verbatim>\<open>null\<close> is \<open>None\<close>.
\<close>

datatype event =
    StdoutData string
  | StderrData string
  | TimerFired
  | Close "int option" int
  | ProcError string int

record process =
  events :: "event list"
  fs_effect :: "(string \<rightharpoonup> node) \<Rightarrow> (string \<rightharpoonup> node)"

record exec_result =
  success :: bool
  exit_code :: "int option"
  stdout :: string
  stderr :: string
  duration_ms :: int
  error :: "string option"
  script_path :: "string option"
  working_directory :: string
  code_preview :: "string option"

text \<open>The variables that the callbacks close over, and the state they share.\<close>

record closure =
  what :: string
  validated_script :: "string option"
  workDir :: string
  safeTimeout :: int
  startTime :: int

record proc_state =
  stdout_buf :: string
  stderr_buf :: string
  killed :: bool
  timer_armed :: bool
  sigterm_sent :: nat
  resolved :: "exec_result option"

definition initial_state :: proc_state where
  "initial_state =
     \<lparr> stdout_buf = [], stderr_buf = [], killed = False, timer_armed = True,
       sigterm_sent = 0, resolved = None \<rparr>"

definition resolve :: "exec_result \<Rightarrow> proc_state \<Rightarrow> proc_state" where
  \<comment> \<open>A promise settles once: a later call of \<^verbatim>\<open>resolve\<close> changes nothing.\<close>
  "resolve r s = (case resolved s of None \<Rightarrow> s\<lparr>resolved := Some r\<rparr> | Some _ \<Rightarrow> s)"

definition killed_result :: "closure \<Rightarrow> proc_state \<Rightarrow> int \<Rightarrow> exec_result" where
  "killed_result c s now =
     \<lparr> success = False,
       exit_code = Some (- 1),
       stdout = stdout_buf s,
       stderr = stderr_buf s,
       duration_ms = now - startTime c,
       error = Some (what c @ '' killed after timeout ('' @ show_int (safeTimeout c) @ ''ms)''),
       script_path = validated_script c,
       working_directory = workDir c,
       code_preview = None \<rparr>"

definition exit_result :: "closure \<Rightarrow> proc_state \<Rightarrow> int option \<Rightarrow> int \<Rightarrow> exec_result" where
  "exit_result c s code now =
     \<lparr> success = (code = Some 0),
       exit_code = code,
       stdout = stdout_buf s,
       stderr = stderr_buf s,
       duration_ms = now - startTime c,
       error = None,
       script_path = validated_script c,
       working_directory = workDir c,
       code_preview = None \<rparr>"

definition error_result :: "closure \<Rightarrow> proc_state \<Rightarrow> string \<Rightarrow> int \<Rightarrow> exec_result" where
  "error_result c s message now =
     \<lparr> success = False,
       exit_code = Some (- 1),
       stdout = stdout_buf s,
       stderr = stderr_buf s,
       duration_ms = now - startTime c,
       error = Some message,
       script_path = validated_script c,
       working_directory = workDir c,
       code_preview = None \<rparr>"

fun on_event :: "closure \<Rightarrow> proc_state \<Rightarrow> event \<Rightarrow> proc_state" where
  "on_event c s (StdoutData d) = s\<lparr>stdout_buf := stdout_buf s @ d\<rparr>"
| "on_event c s (StderrData d) = s\<lparr>stderr_buf := stderr_buf s @ d\<rparr>"
| "on_event c s TimerFired =
     (if timer_armed s
      then s\<lparr>killed := True, timer_armed := False, sigterm_sent := sigterm_sent s + 1\<rparr>
      else s)"
| "on_event c s (Close code now) =
     (if killed s
      then resolve (killed_result c s now) (s\<lparr>timer_armed := False\<rparr>)
      else resolve (exit_result c s code now) (s\<lparr>timer_armed := False\<rparr>))"
| "on_event c s (ProcError message now) =
     resolve (error_result c s message now) (s\<lparr>timer_armed := False\<rparr>)"

definition run_events :: "closure \<Rightarrow> event list \<Rightarrow> proc_state" where
  "run_events c evs = foldl (on_event c) initial_state evs"

definition spawn_and_wait :: "spawn_call \<Rightarrow> closure \<Rightarrow> process \<Rightarrow> exec_result io" where
  \<comment> \<open>\<^verbatim>\<open>await new Promise(...)\<close>: the process is spawned, the callbacks run on its events,
      and the caller resumes with the resolved value, or never if nothing resolves.\<close>
  "spawn_and_wait call c proc w =
     (let w' = w\<lparr>files := fs_effect proc (files w), effects := effects w @ [Spawn call]\<rparr>
      in case resolved (run_events c (events proc)) of
           None \<Rightarrow> (Pending, w')
         | Some r \<Rightarrow> (Returned r, w'))"

definition safe_timeout :: "int \<Rightarrow> int \<Rightarrow> int" where
  \<comment> \<open>\<^verbatim>\<open>Math.min(Math.max(timeout, 1000), MAX)\<close>, the value of \<^verbatim>\<open>safeTimeout\<close> in each of the
      three functions; \<open>MAX\<close> is \<^verbatim>\<open>PYTHON_MAX_TIMEOUT\<close> or \<^verbatim>\<open>POWERSHELL_MAX_TIMEOUT\<close>.
      Timeouts are whole milliseconds.\<close>
  "safe_timeout timeout maxTimeout = min (max timeout 1000) maxTimeout"

definition truthy :: "string option \<Rightarrow> bool" where
  \<comment> \<open>A string argument that may be \<^verbatim>\<open>null\<close>: falsy when \<^verbatim>\<open>null\<close> or empty.\<close>
  "truthy v = (case v of None \<Rightarrow> False | Some s \<Rightarrow> s \<noteq> [])"

section \<open>InterpreterFacade and the PowerShell surface\<close>

text \<open>
  A parameter with a default (\<^verbatim>\<open>timeout = PYTHON_TIMEOUT\<close>) is an option: \<open>None\<close> is the
  omitted argument. \<open>start\<close> is the value of \<^verbatim>\<open>Date.now()\<close> when the promise is built.
\<close>

definition runPythonScript ::
  "node_lib \<Rightarrow> config \<Rightarrow> int \<Rightarrow> process \<Rightarrow> string \<Rightarrow> string list \<Rightarrow> string option
   \<Rightarrow> int option \<Rightarrow> (string \<rightharpoonup> string) \<Rightarrow> exec_result io" where
  "runPythonScript lib cfg start proc scriptPath args' cwd' timeout env' =
     bind_io (validated_io lib cfg scriptPath) (\<lambda>validated.
     bind_io (\<lambda>w. if \<not> existsSync w validated
                  then (Threw (Error (''Script not found: '' @ validated)), w)
                  else (Returned (), w)) (\<lambda>_.
     bind_io (if truthy cwd' then validated_io lib cfg (the cwd')
              else return_io (dirname lib validated)) (\<lambda>workDir'.
       let safeTimeout' =
             safe_timeout (case timeout of None \<Rightarrow> PYTHON_TIMEOUT cfg | Some t \<Rightarrow> t)
               (PYTHON_MAX_TIMEOUT cfg);
           procEnv = process_env lib
                     ++ [''PYTHONUNBUFFERED'' \<mapsto> ''1'', ''PYTHONDONTWRITEBYTECODE'' \<mapsto> ''1'']
                     ++ env'
       in spawn_and_wait
            \<lparr> command = PYTHON_PATH cfg, args = validated # args', cwd = workDir',
              env = procEnv, spawn_timeout = Some safeTimeout' \<rparr>
            \<lparr> what = ''Script'', validated_script = Some validated, workDir = workDir',
              safeTimeout = safeTimeout', startTime = start \<rparr>
            proc)))"


definition runPowerShellScript ::
  "node_lib \<Rightarrow> config \<Rightarrow> int \<Rightarrow> process \<Rightarrow> string \<Rightarrow> string list \<Rightarrow> int option
   \<Rightarrow> string option \<Rightarrow> exec_result io" where
  "runPowerShellScript lib cfg start proc scriptPath args' timeout cwd' =
     bind_io (validated_io lib cfg scriptPath) (\<lambda>validated.
     bind_io (\<lambda>w. if \<not> existsSync w validated
                  then (Threw (Error (''Script not found: '' @ validated)), w)
                  else (Returned (), w)) (\<lambda>_.
     bind_io (if truthy cwd' then validated_io lib cfg (the cwd')
              else return_io (dirname lib validated)) (\<lambda>workDir'.
       let safeTimeout' =
             safe_timeout (case timeout of None \<Rightarrow> POWERSHELL_TIMEOUT cfg | Some t \<Rightarrow> t)
               (POWERSHELL_MAX_TIMEOUT cfg)
       in spawn_and_wait
            \<lparr> command = POWERSHELL_PATH cfg,
              args = [''-NoProfile'', ''-NonInteractive'', ''-ExecutionPolicy'', ''Bypass'',
                      ''-File'', validated] @ args',
              cwd = workDir', env = process_env lib, spawn_timeout = None \<rparr>
            \<lparr> what = ''Script'', validated_script = Some validated, workDir = workDir',
              safeTimeout = safeTimeout', startTime = start \<rparr>
            proc)))"

text \<open>
  \<^verbatim>\<open>runPythonCode\<close>: \<open>now\<close> and \<open>rnd\<close> are the two pieces of the temporary file's name,
  \<^verbatim>\<open>Date.now()\<close> and \<^verbatim>\<open>Math.random().toString(36).slice(2)\<close>. The \<^verbatim>\<open>finally\<close> block runs
  when the body returns or throws; its own \<^verbatim>\<open>catch\<close> swallows the error of \<^verbatim>\<open>unlink\<close>.
\<close>

definition tempFile_name :: "node_lib \<Rightarrow> int \<Rightarrow> string \<Rightarrow> string" where
  "tempFile_name lib now rnd =
     path_join lib (tmpdir lib) (''darkside_python_'' @ show_int now @ ''_'' @ rnd @ ''.py'')"

definition finally_unlink :: "string \<Rightarrow> 'a io \<Rightarrow> 'a io" where
  "finally_unlink tempFile body w =
     (case body w of
        (Pending, w') \<Rightarrow> (Pending, w')
      | (r, w') \<Rightarrow> (r, snd (fs_unlink tempFile w')))"

definition runPythonCode ::
  "node_lib \<Rightarrow> config \<Rightarrow> int \<Rightarrow> string \<Rightarrow> int \<Rightarrow> process \<Rightarrow> string \<Rightarrow> int option
   \<Rightarrow> string option \<Rightarrow> (string \<rightharpoonup> string) \<Rightarrow> exec_result io" where
  "runPythonCode lib cfg now rnd start proc code timeout cwd' env' =
     (if code = [] \<or> trim code = [] then throw_io (Error ''Code cannot be empty'')
      else case checkPythonCodeSafety code of
        Unsafe reason \<Rightarrow> throw_io (Error (''Security check failed: '' @ reason))
      | Safe \<Rightarrow>
          let tempDir = tmpdir lib;
              tempFile = tempFile_name lib now rnd
          in finally_unlink tempFile
               (bind_io (fs_writeFile tempFile code) (\<lambda>_.
                bind_io (runPythonScript lib cfg start proc tempFile []
                           (Some (if truthy cwd' then the cwd' else tempDir))
                           (Some (case timeout of None \<Rightarrow> PYTHON_TIMEOUT cfg | Some t \<Rightarrow> t))
                           env') (\<lambda>result.
                  return_io (result\<lparr>code_preview :=
                     Some (if length code > 200 then take 200 code @ ''...'' else code)\<rparr>)))))"

text \<open>
  \<^verbatim>\<open>checkPythonSyntax\<close> returns one of three shapes of object: the verdict that the syntax
  is valid, a syntax error with its position (\<^verbatim>\<open>parseInt\<close> gives \<^verbatim>\<open>NaN\<close>, here \<open>None\<close>,
  when the text has no leading digits), or a list of error messages. The last field of
  each is \<^verbatim>\<open>source\<close>.
\<close>

datatype syntax_result =
    SyntaxValid string string
  | SyntaxErrorAt "int option" "int option" string string
  | SyntaxInvalid "string list" string

fun includes_str :: "string \<Rightarrow> string \<Rightarrow> bool" where
  "includes_str [] sub = (sub = [])"
| "includes_str (c # cs) sub = (startsWith (c # cs) sub \<or> includes_str cs sub)"

function split_acc :: "string \<Rightarrow> string \<Rightarrow> string \<Rightarrow> string list" where
  "split_acc sep acc [] = [rev acc]"
| "split_acc sep acc (c # cs) =
     (if sep \<noteq> [] \<and> startsWith (c # cs) sep
      then rev acc # split_acc sep [] (drop (length sep) (c # cs))
      else split_acc sep (c # acc) cs)"
  by pat_completeness auto
termination
  by (relation "measure (\<lambda>(sep, acc, s). length s)") auto

definition split_str :: "string \<Rightarrow> string \<Rightarrow> string list" where
  \<comment> \<open>\<^verbatim>\<open>s.split(sep)\<close> for a separator that is not empty.\<close>
  "split_str s sep = split_acc sep [] s"

definition is_digit :: "char \<Rightarrow> bool" where
  "is_digit c = (c \<in> set ''0123456789'')"

definition digit_value :: "char \<Rightarrow> nat" where
  "digit_value c =
     (case map_of (zip ''0123456789'' [0, 1, 2, 3, 4, 5, 6, 7, 8, 9]) c of
        Some d \<Rightarrow> d | None \<Rightarrow> 0)"

definition parseInt :: "string option \<Rightarrow> int option" where
  \<comment> \<open>\<^verbatim>\<open>parseInt(x, 10)\<close>; the argument is \<open>None\<close> for \<^verbatim>\<open>undefined\<close>.\<close>
  "parseInt x =
     (case x of
        None \<Rightarrow> None
      | Some s \<Rightarrow>
          let t = dropWhile is_space s;
              negative = (t \<noteq> [] \<and> hd t = CHR ''-'');
              body = (if t \<noteq> [] \<and> (hd t = CHR ''-'' \<or> hd t = CHR ''+'') then tl t else t);
              digits = takeWhile is_digit body
          in if digits = [] then None
             else let n = int (foldl (\<lambda>a d. 10 * a + digit_value d) 0 digits)
                  in Some (if negative then - n else n))"

definition nth_opt :: "'a list \<Rightarrow> nat \<Rightarrow> 'a option" where
  \<comment> \<open>Indexing an array: \<^verbatim>\<open>undefined\<close> out of range.\<close>
  "nth_opt xs i = (if i < length xs then Some (xs ! i) else None)"

definition quote3 :: string where
  "quote3 = [CHR 0x27, CHR 0x27, CHR 0x27]"

fun replace_quote3 :: "string \<Rightarrow> string" where
  \<comment> \<open>\<^verbatim>\<open>.replace(/\'\'\'/g, ...)\<close>: each run of three single quotes, left to right, gets a
      backslash before each quote.\<close>
  "replace_quote3 (a # b # c # rest) =
     (if [a, b, c] = quote3
      then [backslash, CHR 0x27, backslash, CHR 0x27, backslash, CHR 0x27] @ replace_quote3 rest
      else a # replace_quote3 (b # c # rest))"
| "replace_quote3 s = s"

definition double_backslashes :: "string \<Rightarrow> string" where
  "double_backslashes s =
     concat (map (\<lambda>c. if c = backslash then [backslash, backslash] else [c]) s)"

definition checkCode :: "string \<Rightarrow> string" where
  "checkCode codeToCheck =
     [CHR 0x0A] @ ''import sys'' @ [CHR 0x0A] @ ''import ast'' @ [CHR 0x0A]
     @ ''try:'' @ [CHR 0x0A]
     @ ''    ast.parse('' @ quote3 @ replace_quote3 (double_backslashes codeToCheck) @ quote3
     @ '')'' @ [CHR 0x0A]
     @ ''    print('' @ [CHR 0x27] @ ''SYNTAX_OK'' @ [CHR 0x27] @ '')'' @ [CHR 0x0A]
     @ ''except SyntaxError as e:'' @ [CHR 0x0A]
     @ ''    print(f'' @ [CHR 0x27] @ ''SYNTAX_ERROR:{e.lineno}:{e.offset}:{e.msg}''
     @ [CHR 0x27] @ '')'' @ [CHR 0x0A]"

definition syntax_verdict :: "exec_result \<Rightarrow> string \<Rightarrow> syntax_result" where
  "syntax_verdict result src =
     (if includes_str (stdout result) ''SYNTAX_OK'' then SyntaxValid ''Syntax is valid'' src
      else if includes_str (stdout result) ''SYNTAX_ERROR:'' then
        let parts = split_str (trim (split_str (stdout result) ''SYNTAX_ERROR:'' ! 1)) '':''
        in SyntaxErrorAt (parseInt (nth_opt parts 0)) (parseInt (nth_opt parts 1))
             (join '':'' (drop 2 parts)) src
      else SyntaxInvalid
             [if stderr result = [] then ''Unknown syntax check error'' else stderr result] src)"

definition checkPythonSyntax ::
  "node_lib \<Rightarrow> config \<Rightarrow> int \<Rightarrow> int \<Rightarrow> process \<Rightarrow> string option \<Rightarrow> string option
   \<Rightarrow> syntax_result io" where
  "checkPythonSyntax lib cfg now start proc code scriptPath =
     (if \<not> truthy code \<and> \<not> truthy scriptPath
      then throw_io (Error ''Either code or script_path must be provided'')
      else if truthy code \<and> truthy scriptPath
      then throw_io (Error ''Provide either code or script_path, not both'')
      else
        bind_io (if truthy scriptPath
                 then bind_io (validated_io lib cfg (the scriptPath)) (\<lambda>validated w.
                        if \<not> existsSync w validated
                        then (Returned (Inl (SyntaxInvalid
                                [''Script not found: '' @ validated] ''file'')), w)
                        else (case fs_readFile validated w of
                                (Returned c, w') \<Rightarrow> (Returned (Inr c), w')
                              | (Threw e, w') \<Rightarrow> (Threw e, w')
                              | (Pending, w') \<Rightarrow> (Pending, w')))
                 else return_io (Inr (the code))) (\<lambda>early.
          case early of
            Inl answer \<Rightarrow> return_io answer
          | Inr codeToCheck \<Rightarrow>
              let tempDir = tmpdir lib;
                  tempFile = path_join lib tempDir (''syntax_check_'' @ show_int now @ ''.py'')
              in finally_unlink tempFile
                   (bind_io (fs_writeFile tempFile (checkCode codeToCheck)) (\<lambda>_.
                    bind_io (runPythonScript lib cfg start proc tempFile [] (Some tempDir)
                               (Some 5000) Map.empty) (\<lambda>result.
                      return_io (syntax_verdict result
                                   (if truthy scriptPath then ''file'' else ''code'')))))))"

section \<open>Notions used to state the properties\<close>

text \<open>The defaults of the configuration (\<^verbatim>\<open>index.js\<close>, lines 24 to 32), and a
  configuration whose drive list was given in lower case.\<close>

definition default_config :: config where
  "default_config =
     \<lparr> ALLOWED_DRIVES = ALLOWED_DRIVES_init None,
       ALLOWED_PATHS = ALLOWED_PATHS_init None,
       PYTHON_PATH = ''python'',
       PYTHON_TIMEOUT = 30000,
       PYTHON_MAX_TIMEOUT = 300000,
       POWERSHELL_PATH = ''powershell.exe'',
       POWERSHELL_TIMEOUT = 60000,
       POWERSHELL_MAX_TIMEOUT = 600000 \<rparr>"

definition lower_case_config :: config where
  "lower_case_config = default_config\<lparr>ALLOWED_DRIVES := ALLOWED_DRIVES_init (Some ''c'')\<rparr>"

definition tmp_config :: config where
  "tmp_config = default_config\<lparr>ALLOWED_PATHS := ALLOWED_PATHS_init (Some ''/tmp'')\<rparr>"

text \<open>
  The rule of access as the specification words it: an always-open location, a
  configured prefix, or a leading character that is one of the configured drive
  letters without regard to case.
\<close>

definition claimed_permitted :: "config \<Rightarrow> string \<Rightarrow> bool" where
  "claimed_permitted cfg normalized =
     (startsWith normalized ''/home/'' \<or> startsWith normalized ''/tmp/''
      \<or> (startsWith normalized ''/mnt/''
          \<and> toUpperCase (charAt normalized 5) \<in> set (map toUpperCase (ALLOWED_DRIVES cfg)))
      \<or> list_ex (startsWith normalized) (ALLOWED_PATHS cfg)
      \<or> toUpperCase (charAt normalized 0) \<in> set (map toUpperCase (ALLOWED_DRIVES cfg)))"





fun settles :: "event \<Rightarrow> bool" where
  "settles (Close _ _) = True"
| "settles (ProcError _ _) = True"
| "settles _ = False"

text \<open>
  The encoding of the three process-level outcomes in the result, read off the events
  alone: the triple of \<^verbatim>\<open>success\<close>, \<^verbatim>\<open>exit_code\<close> and \<^verbatim>\<open>error\<close> that the first settling
  event decides, given the word and the bound of the timeout message and whether the
  timer has fired; \<open>None\<close> when no event settles. A close after the timer is the timeout,
  a close without it is the exit of the process, an error event is the spawn error.
\<close>

definition verdict :: "exec_result \<Rightarrow> bool \<times> int option \<times> string option" where
  "verdict r = (success r, exit_code r, error r)"

fun encoded ::
  "string \<Rightarrow> int \<Rightarrow> bool \<Rightarrow> event list \<Rightarrow> (bool \<times> int option \<times> string option) option" where
  "encoded word bound timed [] = None"
| "encoded word bound timed (StdoutData _ # evs) = encoded word bound timed evs"
| "encoded word bound timed (StderrData _ # evs) = encoded word bound timed evs"
| "encoded word bound timed (TimerFired # evs) = encoded word bound True evs"
| "encoded word bound timed (Close code _ # evs) =
     Some (if timed
           then (False, Some (- 1),
                 Some (word @ '' killed after timeout ('' @ show_int bound @ ''ms)''))
           else (code = Some 0, code, None))"
| "encoded word bound timed (ProcError message _ # evs) = Some (False, Some (- 1), Some message)"

fun spawned :: "effect list \<Rightarrow> spawn_call list" where
  "spawned [] = []"
| "spawned (Spawn call # es) = call # spawned es"
| "spawned (_ # es) = spawned es"

fun effect_name :: "effect \<Rightarrow> string" where
  "effect_name (CopyFile _ _) = ''copyFile''"
| "effect_name (WriteFile _ _) = ''writeFile''"
| "effect_name (Unlink _) = ''unlink''"
| "effect_name (Spawn _) = ''spawn''"

definition spawned_env_values :: "world \<Rightarrow> string \<Rightarrow> string option list" where
  \<comment> \<open>The value of one variable in the environment of each spawned process.\<close>
  "spawned_env_values w name = map (\<lambda>call. env call name) (spawned (effects w))"

definition sample_world :: world where
  \<comment> \<open>A world with one file, used for the concrete runs.\<close>
  "sample_world = \<lparr> files = [''/tmp/a.txt'' \<mapsto> File ''old''], effects = [] \<rparr>"

definition script_world :: world where
  \<comment> \<open>A world with a Python script and a PowerShell script.\<close>
  "script_world =
     \<lparr> files = [''/tmp/job.py'' \<mapsto> File ''import time'',
                 ''/home/user/run.ps1'' \<mapsto> File ''Get-Date''],
       effects = [] \<rparr>"

text \<open>Three children: one that outlives the timer and closes after the signal, one that
  exits with code 2, and one that could not be spawned.\<close>

definition timeout_process :: process where
  "timeout_process =
     \<lparr> events = [StdoutData ''tick'', TimerFired, StderrData ''late'', Close None 1205],
       fs_effect = (\<lambda>fs. fs) \<rparr>"

definition exit2_process :: process where
  "exit2_process =
     \<lparr> events = [StderrData ''boom'', Close (Some 2) 350], fs_effect = (\<lambda>fs. fs) \<rparr>"


definition work_dir :: "node_lib \<Rightarrow> config \<Rightarrow> string option \<Rightarrow> string \<Rightarrow> error + string" where
  \<comment> \<open>\<^verbatim>\<open>cwd ? validatePath(cwd) : <default>\<close>, the working directory of a run.\<close>
  "work_dir lib cfg cwd' dflt =
     (if truthy cwd' then validatePath lib cfg (the cwd') else Inr dflt)"

definition is_file :: "world \<Rightarrow> string \<Rightarrow> bool" where
  "is_file w p = (case files w p of Some (File _) \<Rightarrow> True | _ \<Rightarrow> False)"

section \<open>Basic facts\<close>

lemmas io_defs = bind_io_def return_io_def throw_io_def validated_io_def existsSync_def
  fs_copyFile_def fs_writeFile_def fs_stat_size_def fs_unlink_def fs_readFile_def

lemma any_prefix_list_ex: "any_prefix n ps = list_ex (startsWith n) ps"
  by (induction ps) auto

lemma default_drives: "ALLOWED_DRIVES default_config = [''C'', ''F'']"
  by (simp add: default_config_def ALLOWED_DRIVES_init_def)

lemma default_paths: "ALLOWED_PATHS default_config = []"
  by (simp add: default_config_def ALLOWED_PATHS_init_def)

lemma lower_case_drives: "ALLOWED_DRIVES lower_case_config = [''c'']"
  by (simp add: lower_case_config_def default_config_def ALLOWED_DRIVES_init_def)

lemma lower_case_paths: "ALLOWED_PATHS lower_case_config = []"
  by (simp add: lower_case_config_def default_config_def ALLOWED_PATHS_init_def)

lemma valid_tmp_a: "validatePath posix default_config ''/tmp/a.txt'' = Inr ''/tmp/a.txt''"
  by (simp add: validatePath_def posix_def posix_normalize_def startsWith_def)

lemma valid_tmp_new: "validatePath posix default_config ''/tmp/new.txt'' = Inr ''/tmp/new.txt''"
  by (simp add: validatePath_def posix_def posix_normalize_def startsWith_def)

section \<open>AccessGuard\<close>

text \<open>
  What the code computes. \<^verbatim>\<open>validatePath\<close> returns the normalized path exactly when the
  normalized path starts with \<^verbatim>\<open>/home/\<close> or \<^verbatim>\<open>/tmp/\<close>, or starts with \<^verbatim>\<open>/mnt/\<close> and the
  upper-cased character after it is an entry of \<^verbatim>\<open>ALLOWED_DRIVES\<close>, or starts with an entry
  of \<^verbatim>\<open>ALLOWED_PATHS\<close>, or its upper-cased first character is an entry of
  \<^verbatim>\<open>ALLOWED_DRIVES\<close>. Otherwise it fails with the access-denied error whose message holds
  the normalized path and both lists. The order of the four tests does not matter. The
  result is a function of the configuration and the path alone: no file system appears
  among the arguments.
\<close>

lemma validatePath_permits_iff:
  "validatePath lib cfg p =
     (if startsWith (normalize lib p) ''/home/'' \<or> startsWith (normalize lib p) ''/tmp/''
         \<or> (startsWith (normalize lib p) ''/mnt/''
             \<and> toUpperCase (charAt (normalize lib p) 5) \<in> set (ALLOWED_DRIVES cfg))
         \<or> list_ex (startsWith (normalize lib p)) (ALLOWED_PATHS cfg)
         \<or> toUpperCase (charAt (normalize lib p) 0) \<in> set (ALLOWED_DRIVES cfg)
      then Inr (normalize lib p)
      else Inl (Error (''Access denied: Path '' @ normalize lib p
                       @ '' not in allowed list (drives: '' @ join '', '' (ALLOWED_DRIVES cfg)
                       @ '', paths: ''
                       @ (if join '', '' (ALLOWED_PATHS cfg) = [] then ''none''
                          else join '', '' (ALLOWED_PATHS cfg)) @ '')'')))"
  by (simp add: validatePath_def Let_def any_prefix_list_ex access_denied_message_def)

lemma validatePath_examples:
  "validatePath posix default_config ''/tmp/../etc/passwd'' =
     Inl (Error ''Access denied: Path /etc/passwd not in allowed list (drives: C, F, paths: none)'')"
  "validatePath posix default_config ''/mnt/c/work/a.txt'' = Inr ''/mnt/c/work/a.txt''"
  by (simp_all add: validatePath_permits_iff default_drives default_paths posix_def
        posix_normalize_def startsWith_def charAt_def toUpperCase_def upper_char_def)

text \<open>
  When every configured drive entry is its own upper case, as the default \<^verbatim>\<open>C,F\<close> is, the
  rule of the claim and the code agree on every path.
\<close>

lemma validatePath_upper_case_config:
  assumes "map toUpperCase (ALLOWED_DRIVES cfg) = ALLOWED_DRIVES cfg"
  shows "validatePath lib cfg p =
           (if claimed_permitted cfg (normalize lib p) then Inr (normalize lib p)
            else Inl (Error (access_denied_message cfg (normalize lib p))))"
  using assms
  by (auto simp: validatePath_def Let_def any_prefix_list_ex claimed_permitted_def)

text \<open>
  Claim C1, at the point where the code departs from it. The claim compares the leading
  character with the configured drive letters without regard to case. The code
  upper-cases the character of the path and looks it up among the entries as they were
  configured. With \<^verbatim>\<open>ALLOWED_DRIVES=c\<close> the leading character of \<^verbatim>\<open>c:/data/x.txt\<close> is a
  configured drive letter, the rule of the claim permits the path, and \<^verbatim>\<open>validatePath\<close>
  denies it: \<^verbatim>\<open>'c'.toUpperCase()\<close> is \<^verbatim>\<open>'C'\<close>, which is not in \<^verbatim>\<open>['c']\<close>.
\<close>

theorem validatePath_denies_lower_case_drive:
  "claimed_permitted lower_case_config (normalize posix ''c:/data/x.txt'')
   \<and> validatePath posix lower_case_config ''c:/data/x.txt'' =
       Inl (Error ''Access denied: Path c:/data/x.txt not in allowed list (drives: c, paths: none)'')"
  by (simp add: claimed_permitted_def validatePath_def access_denied_message_def
        lower_case_drives lower_case_paths posix_def posix_normalize_def startsWith_def
        charAt_def toUpperCase_def upper_char_def)

section \<open>BackupVault and FileOperations\<close>

text \<open>
  Claim C2. Let \<open>v\<close> be the validated path of an existing regular file with content \<open>c\<close>,
  and let backup be enabled. When \<^verbatim>\<open>write_file\<close> returns, the effects it added are the
  copy to \<open>v.backup_<now>\<close> and then the write, in this order; the backup file holds \<open>c\<close>;
  the backup path differs from \<open>v\<close>. When it throws, the world is unchanged: the only
  failure is the copy itself, before any mutation. It returns whenever the backup path
  is not an existing directory. The same holds for \<^verbatim>\<open>delete_file\<close> with \<open>v.deleted_<now>\<close>
  and the unlink, and the result carries the backup path.
\<close>

theorem backup_precedes_mutation:
  assumes "validatePath lib cfg path = Inr v"
      and "files w v = Some (File c)"
      and "create_backup \<noteq> Some False"
  shows "(case write_file lib cfg now path content create_backup w of
            (Returned r, w') \<Rightarrow>
              effects w' = effects w @ [CopyFile v (v @ ''.backup_'' @ show_int now),
                                        WriteFile v content]
              \<and> files w' (v @ ''.backup_'' @ show_int now) = Some (File c)
              \<and> v @ ''.backup_'' @ show_int now \<noteq> v
          | (Threw e, w') \<Rightarrow> w' = w
          | (Pending, w') \<Rightarrow> False)
       \<and> (files w (v @ ''.backup_'' @ show_int now) \<noteq> Some Dir
            \<longrightarrow> (\<exists>r. fst (write_file lib cfg now path content create_backup w) = Returned r))
       \<and> (case delete_file lib cfg now path create_backup w of
            (Returned r, w') \<Rightarrow>
              effects w' = effects w @ [CopyFile v (v @ ''.deleted_'' @ show_int now), Unlink v]
              \<and> files w' (v @ ''.deleted_'' @ show_int now) = Some (File c)
              \<and> backup_path r = Some (v @ ''.deleted_'' @ show_int now)
              \<and> v @ ''.deleted_'' @ show_int now \<noteq> v
          | (Threw e, w') \<Rightarrow> w' = w
          | (Pending, w') \<Rightarrow> False)
       \<and> (files w (v @ ''.deleted_'' @ show_int now) \<noteq> Some Dir
            \<longrightarrow> (\<exists>r. fst (delete_file lib cfg now path create_backup w) = Returned r))"
  using assms
  by (simp add: write_file_def writeFile_def delete_file_def deleteFile_def io_defs)

theorem backup_precedes_mutation_witness:
  "effects (snd (write_file posix default_config 1700 ''/tmp/a.txt'' ''new'' None sample_world))
     = [CopyFile ''/tmp/a.txt'' ''/tmp/a.txt.backup_1700'', WriteFile ''/tmp/a.txt'' ''new'']
   \<and> files (snd (write_file posix default_config 1700 ''/tmp/a.txt'' ''new'' None sample_world))
        ''/tmp/a.txt.backup_1700'' = Some (File ''old'')
   \<and> effects (snd (delete_file posix default_config 1700 ''/tmp/a.txt'' None sample_world))
     = [CopyFile ''/tmp/a.txt'' ''/tmp/a.txt.deleted_1700'', Unlink ''/tmp/a.txt'']
   \<and> files (snd (delete_file posix default_config 1700 ''/tmp/a.txt'' None sample_world))
        ''/tmp/a.txt.deleted_1700'' = Some (File ''old'')"
  using backup_precedes_mutation [OF valid_tmp_a, of sample_world "''old''" None 1700 "''new''"]
  by (auto simp add: sample_world_def show_int_def split: outcome.splits prod.splits)

text \<open>
  Claim C3, at the point where the code departs from it. For a validated path at which
  nothing exists and with backup enabled, \<^verbatim>\<open>delete_file\<close> fails inside its backup step:
  \<^verbatim>\<open>deleteFile\<close> calls \<^verbatim>\<open>fs.copyFile\<close> without asking whether the file exists, and the
  copy throws \<^verbatim>\<open>ENOENT\<close>. No backup file is created. \<^verbatim>\<open>write_file\<close>, which asks first,
  returns and its only effect is the write.
\<close>

theorem delete_missing_fails_in_backup:
  assumes "validatePath lib cfg path = Inr v"
      and "files w v = None"
      and "create_backup \<noteq> Some False"
  shows "delete_file lib cfg now path create_backup w =
           (Threw (SystemError ''ENOENT'' ''copyfile'' v), w)
       \<and> (\<exists>r. fst (write_file lib cfg now path content create_backup w) = Returned r)
       \<and> effects (snd (write_file lib cfg now path content create_backup w))
           = effects w @ [WriteFile v content]"
  using assms
  by (simp add: write_file_def writeFile_def delete_file_def deleteFile_def io_defs)

theorem delete_missing_fails_in_backup_witness:
  "delete_file posix default_config 1700 ''/tmp/new.txt'' None sample_world =
     (Threw (SystemError ''ENOENT'' ''copyfile'' ''/tmp/new.txt''), sample_world)"
  using delete_missing_fails_in_backup [OF valid_tmp_new, of sample_world None 1700]
  by (simp add: sample_world_def)

text \<open>
  Claim C4, at the point where the code departs from it. \<^verbatim>\<open>write_file\<close> on a validated
  path at which nothing exists, with backup enabled, makes no backup and returns the
  size of the content, and its result says \<^verbatim>\<open>backup_created: true\<close>: the field is
  computed as \<^verbatim>\<open>createBackup && fsSync.existsSync(validated)\<close> after the write, when the
  file exists.
\<close>

theorem write_new_file_reports_backup:
  assumes "validatePath lib cfg path = Inr v"
      and "files w v = None"
      and "create_backup \<noteq> Some False"
  shows "write_file lib cfg now path content create_backup w =
           (Returned \<lparr> w_success = True, w_path = v, w_size = length content,
                        backup_created = True \<rparr>,
            w\<lparr>files := (files w)(v \<mapsto> File content),
              effects := effects w @ [WriteFile v content]\<rparr>)"
  using assms
  by (simp add: write_file_def writeFile_def io_defs)

theorem write_new_file_reports_backup_witness:
  "fst (write_file posix default_config 1700 ''/tmp/new.txt'' ''hi'' None sample_world) =
     Returned \<lparr> w_success = True, w_path = ''/tmp/new.txt'', w_size = 2, backup_created = True \<rparr>
   \<and> effects (snd (write_file posix default_config 1700 ''/tmp/new.txt'' ''hi'' None sample_world))
       = [WriteFile ''/tmp/new.txt'' ''hi'']"
  using write_new_file_reports_backup [OF valid_tmp_new, of sample_world None 1700 "''hi''"]
  by (simp add: sample_world_def)

section \<open>ProcessRunner\<close>

subsection \<open>The callbacks as a state machine\<close>



lemma on_event_sticky: "resolved s = Some r \<Longrightarrow> resolved (on_event c s e) = Some r"
  by (cases e) (auto simp: resolve_def)

lemma foldl_sticky: "resolved s = Some r \<Longrightarrow> resolved (foldl (on_event c) s evs) = Some r"
  by (induction evs arbitrary: s) (auto simp: on_event_sticky)





lemma encoded_fold:
  "resolved s = None \<Longrightarrow> timer_armed s \<or> killed s \<Longrightarrow>
   map_option verdict (resolved (foldl (on_event c) s evs)) =
     encoded (what c) (safeTimeout c) (killed s) evs"
proof (induction evs arbitrary: s)
  case Nil
  then show ?case by simp
next
  case (Cons e evs)
  show ?case
  proof (cases e)
    case (StdoutData d)
    with Cons show ?thesis by simp
  next
    case (StderrData d)
    with Cons show ?thesis by simp
  next
    case TimerFired
    with Cons.prems Cons.IH [of "on_event c s TimerFired"] show ?thesis by auto
  next
    case (Close code t)
    with Cons.prems show ?thesis
      by (simp add: foldl_sticky resolve_def verdict_def killed_result_def exit_result_def)
  next
    case (ProcError m t)
    with Cons.prems show ?thesis
      by (simp add: foldl_sticky resolve_def verdict_def error_result_def)
  qed
qed

lemma encoded_run_events:
  "map_option verdict (resolved (run_events c evs)) = encoded (what c) (safeTimeout c) False evs"
  using encoded_fold [of initial_state c evs] by (simp add: run_events_def initial_state_def)

lemma valid_job: "validatePath posix default_config ''/tmp/job.py'' = Inr ''/tmp/job.py''"
  by (simp add: validatePath_def posix_def posix_normalize_def startsWith_def)


lemma trim_nonblank: "\<exists>c\<in>set s. \<not> is_space c \<Longrightarrow> trim s \<noteq> []"
proof -
  assume a: "\<exists>c\<in>set s. \<not> is_space c"
  then have "dropWhile is_space s \<noteq> []" by (simp add: dropWhile_eq_Nil_conv)
  then obtain x xs where d: "dropWhile is_space s = x # xs" by (cases "dropWhile is_space s") auto
  then have "\<not> is_space x" using hd_dropWhile [of is_space s] by auto
  then have "dropWhile is_space (rev (x # xs)) \<noteq> []" by (auto simp: dropWhile_eq_Nil_conv)
  with d show ?thesis by (simp add: trim_def)
qed

subsection \<open>The three functions, unfolded\<close>

lemma posix_fields:
  "dirname posix = posix_dirname" "homedir posix = ''/home/user''" "tmpdir posix = ''/tmp''"
  "process_env posix = [''PATH'' \<mapsto> ''/usr/bin'']"
  "path_join posix = posix_join"
  by (simp_all add: posix_def)



lemma runPythonScript_unfold:
  "runPythonScript lib cfg start proc scriptPath args' cwd' timeout env' w =
     (case validatePath lib cfg scriptPath of
        Inl e \<Rightarrow> (Threw e, w)
      | Inr v \<Rightarrow>
          if \<not> existsSync w v then (Threw (Error (''Script not found: '' @ v)), w)
          else case work_dir lib cfg cwd' (dirname lib v) of
            Inl e \<Rightarrow> (Threw e, w)
          | Inr wd \<Rightarrow>
              spawn_and_wait
                \<lparr> command = PYTHON_PATH cfg, args = v # args', cwd = wd,
                  env = process_env lib
                        ++ [''PYTHONUNBUFFERED'' \<mapsto> ''1'', ''PYTHONDONTWRITEBYTECODE'' \<mapsto> ''1'']
                        ++ env',
                  spawn_timeout = Some (safe_timeout
                     (case timeout of None \<Rightarrow> PYTHON_TIMEOUT cfg | Some t \<Rightarrow> t)
                     (PYTHON_MAX_TIMEOUT cfg)) \<rparr>
                \<lparr> what = ''Script'', validated_script = Some v, workDir = wd,
                  safeTimeout = safe_timeout
                     (case timeout of None \<Rightarrow> PYTHON_TIMEOUT cfg | Some t \<Rightarrow> t)
                     (PYTHON_MAX_TIMEOUT cfg),
                  startTime = start \<rparr>
                proc w)"
  by (simp add: runPythonScript_def work_dir_def io_defs Let_def split: sum.splits)

lemma runPowerShellScript_unfold:
  "runPowerShellScript lib cfg start proc scriptPath args' timeout cwd' w =
     (case validatePath lib cfg scriptPath of
        Inl e \<Rightarrow> (Threw e, w)
      | Inr v \<Rightarrow>
          if \<not> existsSync w v then (Threw (Error (''Script not found: '' @ v)), w)
          else case work_dir lib cfg cwd' (dirname lib v) of
            Inl e \<Rightarrow> (Threw e, w)
          | Inr wd \<Rightarrow>
              spawn_and_wait
                \<lparr> command = POWERSHELL_PATH cfg,
                  args = [''-NoProfile'', ''-NonInteractive'', ''-ExecutionPolicy'', ''Bypass'',
                          ''-File'', v] @ args',
                  cwd = wd, env = process_env lib, spawn_timeout = None \<rparr>
                \<lparr> what = ''Script'', validated_script = Some v, workDir = wd,
                  safeTimeout = safe_timeout
                     (case timeout of None \<Rightarrow> POWERSHELL_TIMEOUT cfg | Some t \<Rightarrow> t)
                     (POWERSHELL_MAX_TIMEOUT cfg),
                  startTime = start \<rparr>
                proc w)"
  by (simp add: runPowerShellScript_def work_dir_def io_defs Let_def split: sum.splits)



lemma spawn_pending:
  "spawn_and_wait call c proc w = (Pending, w') \<Longrightarrow>
   encoded (what c) (safeTimeout c) False (events proc) = None"
  using encoded_run_events [of c "events proc"]
  by (auto simp: spawn_and_wait_def Let_def split: option.splits)





subsection \<open>Timeouts\<close>



subsection \<open>Failures of the process are results\<close>




section \<open>CodeSafetyFilter\<close>

lemma startsWith_Cons: "startsWith s (c # l) \<Longrightarrow> c \<in> set s"
  by (cases s) (auto simp: startsWith_def)

lemma matches_here_first_char:
  "matches_here (WordBoundary # Lit (c # l) # r) prev s \<Longrightarrow> c \<in> set s"
  by (auto dest: startsWith_Cons)

lemma search_from_first_char:
  "search_from (WordBoundary # Lit (c # l) # r) prev s \<Longrightarrow> c \<in> set s"
proof (induction s arbitrary: prev)
  case Nil
  then show ?case by (auto simp: startsWith_def)
next
  case (Cons x xs)
  then show ?case
    using matches_here_first_char [of c l r prev "x # xs"] by auto
qed

lemma dangerous_patterns_shape:
  "p \<in> set DANGEROUS_PATTERNS \<Longrightarrow>
   \<exists>c l r. p = WordBoundary # Lit (c # l) # r \<and> \<not> is_space c"
  by (auto simp: DANGEROUS_PATTERNS_def is_space_def)

lemma dangerous_match_not_blank:
  assumes "p \<in> set DANGEROUS_PATTERNS" and "test p code"
  shows "code \<noteq> [] \<and> trim code \<noteq> []"
proof -
  from assms(1) obtain c l r where p: "p = WordBoundary # Lit (c # l) # r" and c: "\<not> is_space c"
    using dangerous_patterns_shape by blast
  from assms(2) p have "c \<in> set code"
    using search_from_first_char [of c l r None code] by (simp add: test_def)
  with c show ?thesis using trim_nonblank [of code] by auto
qed

lemma first_dangerous_find:
  "first_dangerous ps code =
     (case find (\<lambda>p. test p code) ps of
        None \<Rightarrow> Safe
      | Some p \<Rightarrow> Unsafe (''Dangerous pattern detected: '' @ toString p))"
  by (induction ps) auto

lemma rmtree_test:
  "test [WordBoundary, Lit ''shutil.rmtree'', Star Whitespace, Lit ''('']
     ''shutil.rmtree(d)''"
  by (simp add: test_def startsWith_def word_before_def word_after_def is_word_char_def)

lemma rmtree_find:
  "find (\<lambda>q. test q ''shutil.rmtree(d)'') DANGEROUS_PATTERNS =
     Some [WordBoundary, Lit ''shutil.rmtree'', Star Whitespace, Lit ''('']"
  by (simp add: DANGEROUS_PATTERNS_def test_def startsWith_def word_before_def
        word_after_def is_word_char_def last_of_def is_space_def)

lemma rmtree_source:
  "toString [WordBoundary, Lit ''shutil.rmtree'', Star Whitespace, Lit ''('']
     = [CHR ''/'', CHR 0x5C] @ ''bshutil'' @ [CHR 0x5C] @ ''.rmtree'' @ [CHR 0x5C] @ ''s*''
       @ [CHR 0x5C] @ ''(/''"
  by (simp add: toString_def escape_lit_def backslash_def)

text \<open>
  Claim C7. If the code text matches one of the dangerous patterns, then
  \<^verbatim>\<open>runPythonCode\<close> throws the error \<^verbatim>\<open>Security check failed: Dangerous pattern detected:\<close>
  followed by the source of the first pattern of the list that matches, and the world
  is what it was: no file was written, nothing was spawned. (A text that matches a
  pattern is never blank, so the test for empty code does not answer first.)
\<close>

theorem dangerous_code_fails_before_any_effect:
  assumes "p \<in> set DANGEROUS_PATTERNS" and "test p code"
  shows "\<exists>q. find (\<lambda>q. test q code) DANGEROUS_PATTERNS = Some q
             \<and> runPythonCode lib cfg now rnd start proc code timeout cwd' env' w =
                 (Threw (Error (''Security check failed: Dangerous pattern detected: ''
                                @ toString q)), w)"
proof -
  from assms obtain q where q: "find (\<lambda>q. test q code) DANGEROUS_PATTERNS = Some q"
    by (cases "find (\<lambda>q. test q code) DANGEROUS_PATTERNS") (auto simp: find_None_iff)
  from assms have nb: "code \<noteq> []" "trim code \<noteq> []"
    using dangerous_match_not_blank by blast+
  from q have "checkPythonCodeSafety code = Unsafe (''Dangerous pattern detected: '' @ toString q)"
    by (simp add: checkPythonCodeSafety_def first_dangerous_find)
  with nb q show ?thesis
    by (simp add: runPythonCode_def throw_io_def)
qed

theorem dangerous_code_fails_before_any_effect_witness:
  "runPythonCode posix default_config 55 ''k3'' 100 exit2_process ''shutil.rmtree(d)''
     None None Map.empty script_world =
     (Threw (Error (''Security check failed: Dangerous pattern detected: ''
                    @ [CHR ''/'', CHR 0x5C] @ ''bshutil'' @ [CHR 0x5C] @ ''.rmtree''
                    @ [CHR 0x5C] @ ''s*'' @ [CHR 0x5C] @ ''(/'')),
      script_world)"
  using dangerous_code_fails_before_any_effect
          [where p = "[WordBoundary, Lit ''shutil.rmtree'', Star Whitespace, Lit ''('']"
             and code = "''shutil.rmtree(d)''" and lib = posix and cfg = default_config
             and now = 55 and rnd = "''k3''" and start = 100 and proc = exit2_process
             and timeout = None and cwd' = None and env' = Map.empty and w = script_world]
        rmtree_test rmtree_find rmtree_source
  by (simp add: DANGEROUS_PATTERNS_def)

section \<open>InterpreterFacade\<close>

subsection \<open>The temporary file\<close>

lemma unlink_removes: "\<not> is_file (snd (fs_unlink p w)) p"
  by (auto simp: fs_unlink_def is_file_def split: option.splits node.splits)

lemma encoded_None: "encoded wd b t evs = None \<Longrightarrow> \<not> list_ex settles evs"
  by (induction wd b t evs rule: encoded.induct) auto

lemma spawn_pending_no_settle:
  "spawn_and_wait call c proc w = (Pending, w') \<Longrightarrow> \<not> list_ex settles (events proc)"
  using spawn_pending encoded_None by blast

lemma runPythonScript_pending:
  "runPythonScript lib cfg start proc scriptPath args' cwd' timeout env' w = (Pending, w')
   \<Longrightarrow> \<not> list_ex settles (events proc)"
  unfolding runPythonScript_unfold
  by (auto split: sum.splits if_splits dest: spawn_pending_no_settle)

lemma finally_unlink_cases:
  "finally_unlink p body w = (out, w') \<Longrightarrow>
   (out = Pending \<and> body w = (Pending, w')) \<or> (out \<noteq> Pending \<and> \<not> is_file w' p)"
  by (auto simp: finally_unlink_def unlink_removes split: prod.splits outcome.splits)

lemma bind_io_pending:
  "bind_io m f w = (Pending, w') \<Longrightarrow>
   m w = (Pending, w') \<or> (\<exists>x w1. m w = (Returned x, w1) \<and> f x w1 = (Pending, w'))"
  by (auto simp: bind_io_def split: prod.splits outcome.splits)

lemma fs_writeFile_not_pending: "fs_writeFile p c w \<noteq> (Pending, w')"
  by (auto simp: fs_writeFile_def)

lemma return_io_not_pending: "return_io x w \<noteq> (Pending, w')"
  by (simp add: return_io_def)

lemma print_safe: "checkPythonCodeSafety ''print(1)'' = Safe"
  by (simp add: checkPythonCodeSafety_def DANGEROUS_PATTERNS_def test_def startsWith_def
        word_before_def word_after_def is_word_char_def last_of_def is_space_def)

lemma temp_name: "tempFile_name posix 55 ''k3'' = ''/tmp/darkside_python_55_k3.py''"
  by (simp add: tempFile_name_def posix_fields posix_join_def posix_normalize_def show_int_def)

lemma tmp_config_fields:
  "ALLOWED_DRIVES tmp_config = [''C'', ''F'']" "ALLOWED_PATHS tmp_config = [''/tmp'']"
  "PYTHON_TIMEOUT tmp_config = 30000" "PYTHON_MAX_TIMEOUT tmp_config = 300000"
  "PYTHON_PATH tmp_config = ''python''"
  by (simp_all add: tmp_config_def default_config_def ALLOWED_DRIVES_init_def
        ALLOWED_PATHS_init_def)

lemma valid_temp_tmp:
  "validatePath posix tmp_config ''/tmp/darkside_python_55_k3.py''
     = Inr ''/tmp/darkside_python_55_k3.py''"
  "validatePath posix tmp_config ''/tmp'' = Inr ''/tmp''"
  "validatePath posix default_config ''/tmp/darkside_python_55_k3.py''
     = Inr ''/tmp/darkside_python_55_k3.py''"
  "validatePath posix default_config ''/tmp'' =
     Inl (Error ''Access denied: Path /tmp not in allowed list (drives: C, F, paths: none)'')"
  by (simp_all add: validatePath_def access_denied_message_def tmp_config_fields default_drives
        default_paths posix_def posix_normalize_def startsWith_def charAt_def toUpperCase_def
        upper_char_def)

lemma staged_runs:
  "map effect_name (effects (snd (runPythonCode posix tmp_config 55 ''k3'' 100 timeout_process
       ''print(1)'' None None Map.empty script_world))) = [''writeFile'', ''spawn'', ''unlink'']"
  "map effect_name (effects (snd (runPythonCode posix tmp_config 55 ''k3'' 100 exit2_process
       ''print(1)'' None None Map.empty script_world))) = [''writeFile'', ''spawn'', ''unlink'']"
  "map effect_name (effects (snd (runPythonCode posix default_config 55 ''k3'' 100 exit2_process
       ''print(1)'' None None Map.empty script_world))) = [''writeFile'', ''unlink'']"
  by (simp_all add: runPythonCode_def print_safe trim_def is_space_def temp_name Let_def
        finally_unlink_def bind_io_def return_io_def fs_writeFile_def fs_unlink_def
        runPythonScript_unfold valid_temp_tmp work_dir_def truthy_def posix_fields
        existsSync_def script_world_def spawn_and_wait_def run_events_def initial_state_def
        timeout_process_def exit2_process_def resolve_def)

text \<open>
  Claim C8. Let the code be not blank and pass the safety check, so that \<^verbatim>\<open>runPythonCode\<close>
  reaches the \<^verbatim>\<open>try\<close> block that stages the temporary file. Whenever the call exits, by
  returning a result (normal completion, non-zero exit, timeout, spawn error) or by
  throwing (the write or a validation inside \<^verbatim>\<open>runPythonScript\<close> failed), no regular file
  is left at the temporary path, whatever the child did to the files. The call does not
  exit only when the process was spawned and no close or error event ever arrives.
\<close>

theorem temp_file_removed_on_every_exit:
  assumes "code \<noteq> []" and "trim code \<noteq> []" and "checkPythonCodeSafety code = Safe"
  shows "(case runPythonCode lib cfg now rnd start proc code timeout cwd' env' w of
            (Pending, w') \<Rightarrow> \<not> list_ex settles (events proc)
          | (Returned r, w') \<Rightarrow> \<not> is_file w' (tempFile_name lib now rnd)
          | (Threw e, w') \<Rightarrow> \<not> is_file w' (tempFile_name lib now rnd))"
proof -
  obtain out w' where run:
    "runPythonCode lib cfg now rnd start proc code timeout cwd' env' w = (out, w')"
    by (cases "runPythonCode lib cfg now rnd start proc code timeout cwd' env' w")
  let ?tempFile = "tempFile_name lib now rnd"
  let ?script = "runPythonScript lib cfg start proc ?tempFile []
                   (Some (if truthy cwd' then the cwd' else tmpdir lib))
                   (Some (case timeout of None \<Rightarrow> PYTHON_TIMEOUT cfg | Some t \<Rightarrow> t)) env'"
  let ?body = "bind_io (fs_writeFile ?tempFile code) (\<lambda>_.
               bind_io ?script (\<lambda>result.
                 return_io (result\<lparr>code_preview :=
                   Some (if length code > 200 then take 200 code @ ''...'' else code)\<rparr>)))"
  from assms run have fin: "finally_unlink ?tempFile ?body w = (out, w')"
    by (simp add: runPythonCode_def Let_def)
  from finally_unlink_cases [OF fin]
  show ?thesis
  proof
    assume p: "out = Pending \<and> ?body w = (Pending, w')"
    then obtain w1 where "?script w1 = (Pending, w')"
      using bind_io_pending [of "fs_writeFile ?tempFile code" _ w w']
            bind_io_pending [of ?script]
            fs_writeFile_not_pending return_io_not_pending
      by (metis (no_types, lifting))
    then have "\<not> list_ex settles (events proc)"
      by (rule runPythonScript_pending)
    with p run show ?thesis by simp
  next
    assume "out \<noteq> Pending \<and> \<not> is_file w' ?tempFile"
    with run show ?thesis by (cases out) auto
  qed
qed

theorem temp_file_removed_on_every_exit_witness:
  "\<not> is_file (snd (runPythonCode posix tmp_config 55 ''k3'' 100 timeout_process ''print(1)''
                     None None Map.empty script_world)) ''/tmp/darkside_python_55_k3.py''
   \<and> map effect_name (effects (snd (runPythonCode posix tmp_config 55 ''k3'' 100
         timeout_process ''print(1)'' None None Map.empty script_world)))
       = [''writeFile'', ''spawn'', ''unlink'']
   \<and> \<not> is_file (snd (runPythonCode posix tmp_config 55 ''k3'' 100 exit2_process ''print(1)''
                     None None Map.empty script_world)) ''/tmp/darkside_python_55_k3.py''
   \<and> map effect_name (effects (snd (runPythonCode posix tmp_config 55 ''k3'' 100
         exit2_process ''print(1)'' None None Map.empty script_world)))
       = [''writeFile'', ''spawn'', ''unlink'']
   \<and> \<not> is_file (snd (runPythonCode posix default_config 55 ''k3'' 100 exit2_process ''print(1)''
                     None None Map.empty script_world)) ''/tmp/darkside_python_55_k3.py''
   \<and> map effect_name (effects (snd (runPythonCode posix default_config 55 ''k3'' 100
         exit2_process ''print(1)'' None None Map.empty script_world)))
       = [''writeFile'', ''unlink'']"
  using temp_file_removed_on_every_exit [where code = "''print(1)''" and lib = posix
          and cfg = tmp_config and now = 55 and rnd = "''k3''" and start = 100
          and proc = timeout_process and timeout = None and cwd' = None and env' = Map.empty
          and w = script_world]
        temp_file_removed_on_every_exit [where code = "''print(1)''" and lib = posix
          and cfg = tmp_config and now = 55 and rnd = "''k3''" and start = 100
          and proc = exit2_process and timeout = None and cwd' = None and env' = Map.empty
          and w = script_world]
        temp_file_removed_on_every_exit [where code = "''print(1)''" and lib = posix
          and cfg = default_config and now = 55 and rnd = "''k3''" and start = 100
          and proc = exit2_process and timeout = None and cwd' = None and env' = Map.empty
          and w = script_world]
        print_safe temp_name staged_runs
  by (auto simp: trim_def is_space_def timeout_process_def exit2_process_def
        split: prod.splits outcome.splits)

subsection \<open>The environment of the Python child\<close>

lemma spawned_append: "spawned (es @ [Spawn call]) = spawned es @ [call]"
  by (induction es rule: spawned.induct) auto

text \<open>
  Claim C9, as the code has it. When \<^verbatim>\<open>runPythonScript\<close> spawns the interpreter, each
  variable of the child's environment has the value the request's \<^verbatim>\<open>env\<close> gives it, if
  any; otherwise \<^verbatim>\<open>1\<close> for \<^verbatim>\<open>PYTHONUNBUFFERED\<close> and \<^verbatim>\<open>PYTHONDONTWRITEBYTECODE\<close>; otherwise
  the value of the ambient environment. The two tuning variables are always present,
  and the request can override their value.
\<close>

theorem python_child_environment:
  assumes "validatePath lib cfg scriptPath = Inr v" and "existsSync w v"
      and "work_dir lib cfg cwd' (dirname lib v) = Inr wd"
  shows "spawned_env_values
           (snd (runPythonScript lib cfg start proc scriptPath args' cwd' timeout env' w)) name
         = spawned_env_values w name
           @ [case env' name of
                Some x \<Rightarrow> Some x
              | None \<Rightarrow> if name = ''PYTHONUNBUFFERED'' \<or> name = ''PYTHONDONTWRITEBYTECODE''
                        then Some ''1'' else process_env lib name]"
  using assms
  by (auto simp: runPythonScript_unfold spawn_and_wait_def Let_def spawned_env_values_def
        spawned_append map_add_def split: option.splits)

theorem python_child_environment_witness:
  "spawned_env_values
     (snd (runPythonScript posix default_config 0 exit2_process ''/tmp/job.py'' [] None None
             [''MODE'' \<mapsto> ''fast''] script_world)) ''PYTHONDONTWRITEBYTECODE'' = [Some ''1'']
   \<and> spawned_env_values
     (snd (runPythonScript posix default_config 0 exit2_process ''/tmp/job.py'' [] None None
             [''MODE'' \<mapsto> ''fast''] script_world)) ''MODE'' = [Some ''fast'']
   \<and> spawned_env_values
     (snd (runPythonScript posix default_config 0 exit2_process ''/tmp/job.py'' [] None None
             [''MODE'' \<mapsto> ''fast''] script_world)) ''PATH'' = [Some ''/usr/bin'']"
  using python_child_environment [where lib = posix and cfg = default_config
          and scriptPath = "''/tmp/job.py''" and v = "''/tmp/job.py''" and w = script_world
          and cwd' = None and wd = "''/tmp''" and start = 0 and proc = exit2_process
          and args' = "[]" and timeout = None and env' = "[''MODE'' \<mapsto> ''fast'']"]
  by (simp add: valid_job existsSync_def script_world_def work_dir_def truthy_def posix_fields
        posix_dirname_def spawned_env_values_def)

text \<open>
  The claim as worded has \<^verbatim>\<open>PYTHONUNBUFFERED=1\<close> in the child's environment whatever the
  request's overlay is. A request with \<^verbatim>\<open>env: {PYTHONUNBUFFERED: '0'}\<close> gives the child
  \<^verbatim>\<open>PYTHONUNBUFFERED=0\<close>: the overlay is spread last.
\<close>

theorem request_env_overrides_tuning_counterexample:
  "spawned_env_values
     (snd (runPythonScript posix default_config 0 exit2_process ''/tmp/job.py'' [] None None
             [''PYTHONUNBUFFERED'' \<mapsto> ''0''] script_world)) ''PYTHONUNBUFFERED'' = [Some ''0'']"
  by (simp add: runPythonScript_unfold valid_job existsSync_def script_world_def work_dir_def
        truthy_def posix_fields spawn_and_wait_def Let_def spawned_env_values_def
        split: option.splits)

subsection \<open>A script that does not exist\<close>

lemma valid_missing:
  "validatePath posix default_config ''/tmp/missing.py'' = Inr ''/tmp/missing.py''"
  by (simp add: validatePath_def posix_def posix_normalize_def startsWith_def)

text \<open>
  Claim C10. \<^verbatim>\<open>checkPythonSyntax\<close> called with a script path only, whose validated path
  does not exist, returns the object \<^verbatim>\<open>{valid: false, errors: ['Script not found: ...'],
  source: 'file'}\<close> and changes nothing, while \<^verbatim>\<open>runPythonScript\<close> and
  \<^verbatim>\<open>runPowerShellScript\<close> on the same path throw \<^verbatim>\<open>Script not found\<close> before spawning.
\<close>

theorem missing_script_is_reported_not_raised:
  assumes "\<not> truthy code" and "truthy scriptPath"
      and "validatePath lib cfg (the scriptPath) = Inr v" and "\<not> existsSync w v"
  shows "checkPythonSyntax lib cfg now start proc code scriptPath w =
           (Returned (SyntaxInvalid [''Script not found: '' @ v] ''file''), w)
       \<and> runPythonScript lib cfg start proc (the scriptPath) args' cwd' timeout env' w =
           (Threw (Error (''Script not found: '' @ v)), w)
       \<and> runPowerShellScript lib cfg start proc (the scriptPath) args' timeout cwd' w =
           (Threw (Error (''Script not found: '' @ v)), w)"
  using assms
  by (simp add: checkPythonSyntax_def runPythonScript_unfold runPowerShellScript_unfold
        bind_io_def return_io_def validated_io_def)

theorem missing_script_is_reported_not_raised_witness:
  "checkPythonSyntax posix default_config 55 100 exit2_process None (Some ''/tmp/missing.py'')
     script_world =
     (Returned (SyntaxInvalid [''Script not found: /tmp/missing.py''] ''file''), script_world)
   \<and> runPythonScript posix default_config 100 exit2_process ''/tmp/missing.py'' [] None None
       Map.empty script_world =
     (Threw (Error ''Script not found: /tmp/missing.py''), script_world)
   \<and> runPowerShellScript posix default_config 100 exit2_process ''/tmp/missing.py'' [] None None
       script_world =
     (Threw (Error ''Script not found: /tmp/missing.py''), script_world)"
  using missing_script_is_reported_not_raised [where code = None
          and scriptPath = "Some ''/tmp/missing.py''" and lib = posix and cfg = default_config
          and v = "''/tmp/missing.py''" and w = script_world and now = 55 and start = 100
          and proc = exit2_process and args' = "[]" and cwd' = None and timeout = None
          and env' = Map.empty]
  by (simp add: truthy_def valid_missing existsSync_def script_world_def)

end
